theory Spec2Isabelle
  imports Main "HOL-Library.Finite_Map"
begin

section \<open>Values, documents and JavaScript helpers\<close>

text \<open>
  The application in \<^verbatim>\<open>src/server.js\<close> is one React component that talks to a hosted
  identity service and a hosted document store. Its functions are embedded as pure
  functions: every handler takes the component state (and, where it writes, the
  activity collection), takes the outcome of each backend call it awaits as an
  argument, and returns the new state together with the list of effects it performed
  (console output and backend calls, in program order).

  Documents are free-form: a field can hold any value the store knows. Numbers are
  integers here (no claim depends on fractions), and \<open>VServerTimestamp\<close> is the
  sentinel that \<^verbatim>\<open>serverTimestamp()\<close> returns, which the store replaces by its
  own clock when it commits a write. Strings are lists of 8-bit characters.
\<close>

datatype fsvalue =
    VNull
  | VBool bool
  | VNum int
  | VStr string
  | VTimestamp nat
  | VServerTimestamp
  | VArr "fsvalue list"
  | VMap "(string, fsvalue) fmap"

type_synonym doc = "(string, fsvalue) fmap"

text \<open>The activity collection: document id to document.\<close>

type_synonym store = "(string, doc) fmap"

datatype js_error = TypeError | FirebaseError

text \<open>JavaScript truthiness of a field value (objects and arrays are always truthy).\<close>

fun truthy :: "fsvalue \<Rightarrow> bool" where
  "truthy VNull = False"
| "truthy (VBool b) = b"
| "truthy (VNum n) = (n \<noteq> 0)"
| "truthy (VStr s) = (s \<noteq> [])"
| "truthy (VTimestamp t) = True"
| "truthy VServerTimestamp = True"
| "truthy (VArr xs) = True"
| "truthy (VMap m) = True"

text \<open>
  A state variable or global that holds \<^verbatim>\<open>null\<close> or a string: \<open>!x\<close> is true for
  \<^verbatim>\<open>null\<close> and for the empty string.
\<close>

fun falsy_str :: "string option \<Rightarrow> bool" where
  "falsy_str None = True"
| "falsy_str (Some s) = (s = [])"

text \<open>\<^verbatim>\<open>String.prototype.includes\<close>: the argument occurs as a contiguous substring.\<close>

fun str_includes :: "string \<Rightarrow> string \<Rightarrow> bool" where
  "str_includes [] u = (u = [])"
| "str_includes (c # cs) u = (take (length u) (c # cs) = u \<or> str_includes cs u)"

text \<open>
  \<^verbatim>\<open>x.includes(u)\<close> for a string \<open>u\<close>. An array compares its elements with
  SameValueZero, so only a string element with the same characters matches; a string
  receiver tests for a substring; every other value has no \<^verbatim>\<open>includes\<close> method and
  the call throws a TypeError.
\<close>

fun js_includes :: "fsvalue \<Rightarrow> string \<Rightarrow> js_error + bool" where
  "js_includes (VArr xs) u = Inr (VStr u \<in> set xs)"
| "js_includes (VStr s) u = Inr (str_includes s u)"
| "js_includes VNull u = Inl TypeError"
| "js_includes (VBool b) u = Inl TypeError"
| "js_includes (VNum n) u = Inl TypeError"
| "js_includes (VTimestamp t) u = Inl TypeError"
| "js_includes VServerTimestamp u = Inl TypeError"
| "js_includes (VMap m) u = Inl TypeError"

text \<open>\<^verbatim>\<open>v || []\<close> for a field that may be absent (\<^verbatim>\<open>undefined\<close>).\<close>

definition or_empty_array :: "fsvalue option \<Rightarrow> fsvalue" where
  "or_empty_array v =
     (case v of None \<Rightarrow> VArr [] | Some x \<Rightarrow> if truthy x then x else VArr [])"

text \<open>
  \<^verbatim>\<open>String.prototype.trim\<close>: white space and line terminators are removed at both
  ends. Of JavaScript's white space, TAB, LF, VT, FF, CR, SP and NBSP are 8-bit
  characters.
\<close>

definition is_js_space :: "char \<Rightarrow> bool" where
  "is_js_space c = (of_char c \<in> {9, 10, 11, 12, 13, 32, 160 :: nat})"

definition trim :: "string \<Rightarrow> string" where
  "trim s = rev (dropWhile is_js_space (rev (dropWhile is_js_space s)))"

section \<open>Environment, component state and effects\<close>

datatype handle = App | Firestore | Auth

text \<open>
  The globals the page is started with: \<^verbatim>\<open>__app_id\<close>, the keys of the parsed
  \<^verbatim>\<open>__firebase_config\<close>, \<^verbatim>\<open>__initial_auth_token\<close> (\<open>None\<close> when undefined), and
  the browser's \<^verbatim>\<open>toLocaleTimeString\<close> applied to a stored time.
\<close>

record env =
  app_id_global :: "string option"
  firebaseConfigKeys :: "string list"
  initial_auth_token_global :: "string option"
  toLocaleTimeString :: "nat \<Rightarrow> string"

definition appId :: "env \<Rightarrow> string" where
  "appId e = (case app_id_global e of Some a \<Rightarrow> a | None \<Rightarrow> ''default-app-id'')"

definition initialAuthToken :: "env \<Rightarrow> string option" where
  "initialAuthToken e = initial_auth_token_global e"

definition app :: "env \<Rightarrow> handle option" where
  "app e = (if firebaseConfigKeys e \<noteq> [] then Some App else None)"

definition db :: "env \<Rightarrow> handle option" where
  "db e = (case app e of Some a \<Rightarrow> Some Firestore | None \<Rightarrow> None)"

definition auth :: "env \<Rightarrow> handle option" where
  "auth e = (case app e of Some a \<Rightarrow> Some Auth | None \<Rightarrow> None)"

definition ADMINS_DOC_PATH :: "env \<Rightarrow> string" where
  "ADMINS_DOC_PATH e = ''artifacts/'' @ appId e @ ''/public/settings/admins''"

definition ACTIVITIES_COLLECTION_PATH :: "env \<Rightarrow> string" where
  "ACTIVITIES_COLLECTION_PATH e = ''artifacts/'' @ appId e @ ''/public/data/app_activities''"

definition initialActivity :: doc where
  "initialActivity = fmap_of_list
     [(''content'', VStr ''Initial activity logged to public feed.''),
      (''timestamp'', VServerTimestamp),
      (''userId'', VStr ''SYSTEM'')]"

record app_state =
  userId :: "string option"
  isAuthReady :: bool
  isAdmin :: bool
  loading :: bool
  globalActivities :: "doc list"
  logMessage :: string

definition initialState :: app_state where
  "initialState = \<lparr>userId = None, isAuthReady = False, isAdmin = False, loading = True,
     globalActivities = [], logMessage = []\<rparr>"

datatype direction = Asc | Desc

record query =
  q_collection :: string
  q_orderBy :: "(string \<times> direction) option"
  q_limit :: "nat option"

datatype effect =
    ConsoleError string
  | ConsoleLog string
  | SignInWithCustomToken string
  | SignInAnonymously
  | GetDoc string
  | GetDocs query
  | SetDoc string doc
  | OnSnapshot query
  | OnAuthStateChanged
  | Uncaught js_error

section \<open>Admin status check\<close>

text \<open>
  \<^verbatim>\<open>checkAdminStatus(currentUserId)\<close> (lines 94 to 116). The third argument is the outcome of
  \<^verbatim>\<open>getDoc\<close>: it rejects (\<open>Inl\<close>), or resolves to a snapshot that holds the
  document's data when the document exists. The \<^verbatim>\<open>catch\<close> block covers the read and
  the membership test alike.
\<close>

definition adminCheckFailed :: "app_state \<Rightarrow> app_state \<times> effect list" where
  "adminCheckFailed s = (s\<lparr>isAdmin := False\<rparr>, [ConsoleError ''Error checking admin status:''])"

definition checkAdminStatus ::
  "env \<Rightarrow> string \<Rightarrow> js_error + doc option \<Rightarrow> app_state \<Rightarrow> app_state \<times> effect list" where
  "checkAdminStatus e currentUserId docSnap s =
     (if db e = None \<or> currentUserId = [] then (s, [])
      else
        (case docSnap of
           Inl err \<Rightarrow>
             (let (s', fx) = adminCheckFailed s in (s', GetDoc (ADMINS_DOC_PATH e) # fx))
         | Inr None \<Rightarrow>
             (s\<lparr>isAdmin := False\<rparr>,
              [GetDoc (ADMINS_DOC_PATH e),
               ConsoleLog ''Admins document does not exist. No one is admin.''])
         | Inr (Some data) \<Rightarrow>
             (let adminList = or_empty_array (fmlookup data ''uids'') in
              case js_includes adminList currentUserId of
                Inl err \<Rightarrow>
                  (let (s', fx) = adminCheckFailed s in (s', GetDoc (ADMINS_DOC_PATH e) # fx))
              | Inr isUserAdmin \<Rightarrow>
                  (s\<lparr>isAdmin := isUserAdmin\<rparr>,
                   [GetDoc (ADMINS_DOC_PATH e),
                    ConsoleLog (''User '' @ currentUserId @ '' is admin: '' @
                       (if isUserAdmin then ''true'' else ''false''))]))))"

section \<open>Authentication\<close>

text \<open>
  The first effect of the component (lines 61 to 91). Without an auth handle it logs, stops the loading
  state and registers nothing; otherwise it registers the auth-state callback.
\<close>

definition mountEffect :: "env \<Rightarrow> app_state \<Rightarrow> app_state \<times> effect list" where
  "mountEffect e s =
     (if auth e = None
      then (s\<lparr>loading := False\<rparr>,
            [ConsoleError ''Firebase Auth not initialized. Check __firebase_config.''])
      else (s, [OnAuthStateChanged]))"

text \<open>The \<^verbatim>\<open>catch\<close> block around the sign-in.\<close>

definition authFailed :: "app_state \<Rightarrow> app_state \<times> effect list" where
  "authFailed s = (s\<lparr>userId := Some ''anonymous''\<rparr>, [ConsoleError ''Authentication failed:''])"

text \<open>
  The sign-in call the callback makes when no user is signed in:
  \<^verbatim>\<open>if (initialAuthToken) signInWithCustomToken(...) else signInAnonymously(...)\<close>.
\<close>

definition signInCall :: "env \<Rightarrow> effect" where
  "signInCall e =
     (case initialAuthToken e of
        None \<Rightarrow> SignInAnonymously
      | Some t \<Rightarrow> if t = [] then SignInAnonymously else SignInWithCustomToken t)"

text \<open>
  The callback of \<^verbatim>\<open>onAuthStateChanged\<close> (lines 68 to 88). \<open>user\<close> is the uid of the signed-in user
  or \<open>None\<close>; \<open>signIn\<close> is the outcome of the sign-in call (\<open>Some err\<close> when it
  throws) and \<open>docSnap\<close> the outcome of the admin read; each is used only on the
  branch that makes the call. The last two state updates run on every branch.
\<close>

definition onAuthStateChanged_cb ::
  "env \<Rightarrow> string option \<Rightarrow> js_error option \<Rightarrow> js_error + doc option \<Rightarrow> app_state
     \<Rightarrow> app_state \<times> effect list" where
  "onAuthStateChanged_cb e user signIn docSnap s =
     (let (s1, fx) =
        (case user of
           Some uid \<Rightarrow> checkAdminStatus e uid docSnap (s\<lparr>userId := Some uid\<rparr>)
         | None \<Rightarrow>
             (case signIn of
                None \<Rightarrow> (s, [signInCall e])
              | Some err \<Rightarrow> (let (s', fx') = authFailed s in (s', signInCall e # fx'))))
      in (s1\<lparr>isAuthReady := True, loading := False\<rparr>, fx))"

section \<open>The activity feed\<close>

text \<open>
  What the store does with a write: \<^verbatim>\<open>setDoc\<close> replaces the document at the given
  id by the data, each server-timestamp sentinel replaced by the server's time.
\<close>

definition resolveField :: "nat \<Rightarrow> fsvalue \<Rightarrow> fsvalue" where
  "resolveField now v = (case v of VServerTimestamp \<Rightarrow> VTimestamp now | _ \<Rightarrow> v)"

definition commit :: "nat \<Rightarrow> doc \<Rightarrow> doc" where
  "commit now d = fmmap (resolveField now) d"

definition docPath :: "env \<Rightarrow> string \<Rightarrow> string" where
  "docPath e docId = ACTIVITIES_COLLECTION_PATH e @ ''/'' @ docId"

definition probeQuery :: "env \<Rightarrow> query" where
  "probeQuery e = \<lparr>q_collection = ACTIVITIES_COLLECTION_PATH e, q_orderBy = None, q_limit = Some 1\<rparr>"

definition feedQuery :: "env \<Rightarrow> query" where
  "feedQuery e = \<lparr>q_collection = ACTIVITIES_COLLECTION_PATH e,
     q_orderBy = Some (''timestamp'', Desc), q_limit = Some 100\<rparr>"

text \<open>The \<^verbatim>\<open>catch\<close> block of \<^verbatim>\<open>logInitialActivity\<close>.\<close>

definition seedFailed :: "effect list" where
  "seedFailed = [ConsoleError ''Error logging initial activity:'']"

text \<open>
  \<^verbatim>\<open>logInitialActivity\<close> (lines 123 to 134), in two parts. The first is what the
  function does once \<^verbatim>\<open>await getDocs(q)\<close> has returned. \<open>probe\<close> is the outcome
  of that read (\<open>Some err\<close> when it rejects), \<open>seen\<close> the collection as the read
  saw it (the snapshot is empty exactly when \<open>seen\<close> is), \<open>wr\<close> the outcome of
  \<^verbatim>\<open>setDoc\<close> (the server's time when it commits) and \<open>st\<close> the collection the
  write is committed to. The collection is shared with every other client, so it can
  change between the read and the write.
\<close>

definition seedAfterProbe ::
  "env \<Rightarrow> js_error option \<Rightarrow> js_error + nat \<Rightarrow> store \<Rightarrow> store \<Rightarrow> store \<times> effect list" where
  "seedAfterProbe e probe wr seen st =
     (case probe of
        Some err \<Rightarrow> (st, seedFailed)
      | None \<Rightarrow>
          if fmdom seen = {||}
          then (case wr of
                  Inl err \<Rightarrow>
                    (st, SetDoc (docPath e ''system-init'') initialActivity # seedFailed)
                | Inr now \<Rightarrow>
                    (fmupd ''system-init'' (commit now initialActivity) st,
                     [SetDoc (docPath e ''system-init'') initialActivity,
                      ConsoleLog ''Logged initial system activity.'']))
          else (st, []))"

text \<open>The whole function: the read is issued, then the rest runs.\<close>

definition logInitialActivityAt ::
  "env \<Rightarrow> js_error option \<Rightarrow> js_error + nat \<Rightarrow> store \<Rightarrow> store \<Rightarrow> store \<times> effect list" where
  "logInitialActivityAt e probe wr seen st =
     (let (st', fx) = seedAfterProbe e probe wr seen st in (st', GetDocs (probeQuery e) # fx))"

text \<open>
  The function when nothing is written to the collection between its read and its
  write: the read sees the collection the write is committed to.
\<close>

definition logInitialActivity ::
  "env \<Rightarrow> js_error option \<Rightarrow> js_error + nat \<Rightarrow> store \<Rightarrow> store \<times> effect list" where
  "logInitialActivity e probe wr st = logInitialActivityAt e probe wr st st"

text \<open>
  The third effect (lines 119 to 153): it runs when its dependencies change, returns
  at once without a database or before authentication is ready, and otherwise calls
  \<^verbatim>\<open>logInitialActivity\<close> without awaiting it and subscribes to the feed query. The
  call issues its read and yields; the subscription is registered; the rest of
  \<^verbatim>\<open>logInitialActivity\<close> runs when the read has returned. As an event of the
  component the effect is taken with nothing written in between.
\<close>

definition feedEffect ::
  "env \<Rightarrow> js_error option \<Rightarrow> js_error + nat \<Rightarrow> app_state \<Rightarrow> store \<Rightarrow> store \<times> effect list" where
  "feedEffect e probe wr s st =
     (if db e = None \<or> isAuthReady s = False then (st, [])
      else (let (st', fx) = seedAfterProbe e probe wr st st
            in (st', GetDocs (probeQuery e) # OnSnapshot (feedQuery e) # fx)))"

text \<open>
  \<^verbatim>\<open>d.data().timestamp?.toDate()?.toLocaleTimeString() || 'N/A'\<close>: an absent or null
  field short-circuits to \<^verbatim>\<open>undefined\<close>, a stored time is formatted, and any other
  value has no \<^verbatim>\<open>toDate\<close> method, so the call throws.
\<close>

definition formatTimestamp :: "env \<Rightarrow> fsvalue option \<Rightarrow> js_error + fsvalue" where
  "formatTimestamp e v =
     (case v of
        None \<Rightarrow> Inr (VStr ''N/A'')
      | Some VNull \<Rightarrow> Inr (VStr ''N/A'')
      | Some (VTimestamp t) \<Rightarrow>
          Inr (VStr (if toLocaleTimeString e t = [] then ''N/A'' else toLocaleTimeString e t))
      | Some other \<Rightarrow> Inl TypeError)"

text \<open>
  \<^verbatim>\<open>{ id: d.id, ...d.data(), timestamp: ... }\<close>: the data's own fields override
  \<open>id\<close>, and the formatted time overrides the data's \<open>timestamp\<close>.
\<close>

definition activityView :: "env \<Rightarrow> string \<times> doc \<Rightarrow> js_error + doc" where
  "activityView e d =
     (case formatTimestamp e (fmlookup (snd d) ''timestamp'') of
        Inl err \<Rightarrow> Inl err
      | Inr ts \<Rightarrow> Inr (fmupd ''timestamp'' ts (fmupd ''id'' (VStr (fst d)) fmempty ++\<^sub>f snd d)))"

text \<open>\<^verbatim>\<open>snapshot.docs.map(...)\<close>, where the first exception ends the whole map.\<close>

fun mapViews :: "env \<Rightarrow> (string \<times> doc) list \<Rightarrow> js_error + doc list" where
  "mapViews e [] = Inr []"
| "mapViews e (d # ds) =
     (case activityView e d of
        Inl err \<Rightarrow> Inl err
      | Inr v \<Rightarrow> (case mapViews e ds of Inl err \<Rightarrow> Inl err | Inr vs \<Rightarrow> Inr (v # vs)))"

text \<open>
  The two callbacks of \<^verbatim>\<open>onSnapshot\<close> (lines 141 to 150). An exception in the first is caught by
  nothing in this code and the state update after it does not run.
\<close>

definition onSnapshot_next :: "env \<Rightarrow> (string \<times> doc) list \<Rightarrow> app_state \<Rightarrow> app_state \<times> effect list" where
  "onSnapshot_next e docs s =
     (case mapViews e docs of
        Inl err \<Rightarrow> (s, [Uncaught err])
      | Inr activities \<Rightarrow> (s\<lparr>globalActivities := activities\<rparr>, []))"

definition onSnapshot_error :: "app_state \<Rightarrow> app_state \<times> effect list" where
  "onSnapshot_error s = (s, [ConsoleError ''Error fetching global activities:''])"

section \<open>Logging a user activity\<close>

text \<open>The \<^verbatim>\<open>catch\<close> block of \<^verbatim>\<open>logUserActivity\<close>.\<close>

definition activityFailed :: "app_state \<Rightarrow> app_state \<times> effect list" where
  "activityFailed s =
     (s\<lparr>logMessage := ''Error logging activity.''\<rparr>, [ConsoleError ''Error logging user activity:''])"

text \<open>
  The record \<^verbatim>\<open>logUserActivity\<close> writes. The function is a closure over the values
  of \<open>logMessage\<close>, \<open>userId\<close> and \<open>isAdmin\<close> of the render it was created in, so the
  record is built from the state the call started in; \<^verbatim>\<open>setLogMessage\<close> changes the
  state of the next render only.
\<close>

definition activityRecord :: "app_state \<Rightarrow> doc" where
  "activityRecord s = fmap_of_list
     [(''content'', VStr (trim (logMessage s))),
      (''timestamp'', VServerTimestamp),
      (''userId'', (case userId s of Some u \<Rightarrow> VStr u | None \<Rightarrow> VNull)),
      (''is_admin'', VBool (isAdmin s)),
      (''app_version'', VStr ''1.0'')]"

text \<open>
  \<^verbatim>\<open>logUserActivity\<close> (lines 156 to 174). \<open>newId\<close> is the id that \<^verbatim>\<open>doc(collection(...))\<close> generates
  for the new reference, \<open>wr\<close> the outcome of \<^verbatim>\<open>setDoc\<close>.
\<close>

definition logUserActivity ::
  "env \<Rightarrow> string \<Rightarrow> js_error + nat \<Rightarrow> app_state \<Rightarrow> store \<Rightarrow> app_state \<times> store \<times> effect list" where
  "logUserActivity e newId wr s st =
     (if db e = None \<or> falsy_str (userId s) \<or> trim (logMessage s) = [] then (s, st, [])
      else
        (let s1 = s\<lparr>logMessage := ''Logging...''\<rparr> in
         case wr of
           Inr now \<Rightarrow>
             (s1\<lparr>logMessage := []\<rparr>,
              fmupd newId (commit now (activityRecord s)) st,
              [SetDoc (docPath e newId) (activityRecord s)])
         | Inl err \<Rightarrow>
             (let (s', fx) = activityFailed s1
              in (s', st, SetDoc (docPath e newId) (activityRecord s) # fx))))"

section \<open>Rendering\<close>

datatype dashboard = AdminDashboard "doc list" | UserDashboard string bool

datatype view = Connecting | MainView string string dashboard

text \<open>
  What the component returns (lines 176 to 279): the loading screen, or the page with the user id label,
  the role label and one of the two dashboards (the user form with its text and
  whether its button is disabled).
\<close>

definition roleLabel :: "app_state \<Rightarrow> string" where
  "roleLabel s = (if isAdmin s then ''Administrator'' else ''Standard User'')"

definition render :: "app_state \<Rightarrow> view" where
  "render s =
     (if loading s then Connecting
      else MainView
        (if falsy_str (userId s) then ''N/A'' else (case userId s of Some u \<Rightarrow> u | None \<Rightarrow> ''N/A''))
        (roleLabel s)
        (if isAdmin s then AdminDashboard (globalActivities s)
         else UserDashboard (logMessage s)
                (trim (logMessage s) = [] \<or> logMessage s = ''Logging...'')))"

section \<open>Events\<close>

text \<open>
  Everything that can happen to the component, each with the outcomes of the backend
  calls it awaits: mounting, an auth-state change, a run of the feed effect, a
  snapshot or an error delivered to the listener, typing into the form, and a click
  on its button.
\<close>

datatype event =
    Mount
  | AuthStateChanged "string option" "js_error option" "js_error + doc option"
  | FeedEffect "js_error option" "js_error + nat"
  | SnapshotNext "(string \<times> doc) list"
  | SnapshotError
  | InputChange string
  | ClickLog string "js_error + nat"

fun step :: "env \<Rightarrow> event \<Rightarrow> app_state \<times> store \<Rightarrow> (app_state \<times> store) \<times> effect list" where
  "step e Mount (s, st) = (let (s', fx) = mountEffect e s in ((s', st), fx))"
| "step e (AuthStateChanged user signIn docSnap) (s, st) =
     (let (s', fx) = onAuthStateChanged_cb e user signIn docSnap s in ((s', st), fx))"
| "step e (FeedEffect probe wr) (s, st) =
     (let (st', fx) = feedEffect e probe wr s st in ((s, st'), fx))"
| "step e (SnapshotNext docs) (s, st) =
     (let (s', fx) = onSnapshot_next e docs s in ((s', st), fx))"
| "step e SnapshotError (s, st) = (let (s', fx) = onSnapshot_error s in ((s', st), fx))"
| "step e (InputChange v) (s, st) = ((s\<lparr>logMessage := v\<rparr>, st), [])"
| "step e (ClickLog newId wr) (s, st) =
     (let (s', st', fx) = logUserActivity e newId wr s st in ((s', st'), fx))"

section \<open>Notions used in the statements\<close>

text \<open>Runs: a list of events applied in order, with the effects concatenated.\<close>

fun run :: "env \<Rightarrow> event list \<Rightarrow> app_state \<times> store \<Rightarrow> (app_state \<times> store) \<times> effect list" where
  "run e [] c = (c, [])"
| "run e (ev # evs) c =
     (let (c1, fx1) = step e ev c; (c2, fx2) = run e evs c1 in (c2, fx1 @ fx2))"

text \<open>
  The id of a new reference is generated at random by the client library; it is fresh
  when no document of the collection has it.
\<close>

fun freshFor :: "event \<Rightarrow> store \<Rightarrow> bool" where
  "freshFor (ClickLog newId wr) st = (newId |\<notin>| fmdom st)"
| "freshFor Mount st = True"
| "freshFor (AuthStateChanged user signIn docSnap) st = True"
| "freshFor (FeedEffect probe wr) st = True"
| "freshFor (SnapshotNext docs) st = True"
| "freshFor SnapshotError st = True"
| "freshFor (InputChange v) st = True"

fun freshIds :: "env \<Rightarrow> event list \<Rightarrow> app_state \<times> store \<Rightarrow> bool" where
  "freshIds e [] c = True"
| "freshIds e (ev # evs) c = (freshFor ev (snd c) \<and> freshIds e evs (fst (step e ev c)))"

fun isAuthEvent :: "event \<Rightarrow> bool" where
  "isAuthEvent (AuthStateChanged user signIn docSnap) = True"
| "isAuthEvent Mount = False"
| "isAuthEvent (FeedEffect probe wr) = False"
| "isAuthEvent (SnapshotNext docs) = False"
| "isAuthEvent SnapshotError = False"
| "isAuthEvent (InputChange v) = False"
| "isAuthEvent (ClickLog newId wr) = False"

fun noAuthEvents :: "event list \<Rightarrow> bool" where
  "noAuthEvents [] = True"
| "noAuthEvents (ev # evs) = (isAuthEvent ev = False \<and> noAuthEvents evs)"


fun isSignIn :: "effect \<Rightarrow> bool" where
  "isSignIn (SignInWithCustomToken t) = True"
| "isSignIn SignInAnonymously = True"
| "isSignIn (SetDoc p d) = False"
| "isSignIn (ConsoleError m) = False"
| "isSignIn (ConsoleLog m) = False"
| "isSignIn (GetDoc p) = False"
| "isSignIn (GetDocs q) = False"
| "isSignIn (OnSnapshot q) = False"
| "isSignIn OnAuthStateChanged = False"
| "isSignIn (Uncaught err) = False"

text \<open>A token is supplied when \<^verbatim>\<open>if (initialAuthToken)\<close> takes its first branch.\<close>

definition tokenSupplied :: "env \<Rightarrow> bool" where
  "tokenSupplied e = (falsy_str (initialAuthToken e) = False)"

text \<open>The shapes of a record: which fields it has and what kind of value each holds.\<close>

fun isText :: "fsvalue option \<Rightarrow> bool" where
  "isText (Some (VStr x)) = True"
| "isText v = False"

fun isBoolean :: "fsvalue option \<Rightarrow> bool" where
  "isBoolean (Some (VBool b)) = True"
| "isBoolean v = False"

definition userActivityFields :: "doc \<Rightarrow> bool" where
  "userActivityFields d =
     (fmdom d = {|''content'', ''timestamp'', ''userId'', ''is_admin'', ''app_version''|} \<and>
      isText (fmlookup d ''content'') \<and>
      fmlookup d ''timestamp'' = Some VServerTimestamp \<and>
      isText (fmlookup d ''userId'') \<and>
      isBoolean (fmlookup d ''is_admin'') \<and>
      isText (fmlookup d ''app_version''))"

definition seedFields :: "doc \<Rightarrow> bool" where
  "seedFields d =
     (fmdom d = {|''content'', ''timestamp'', ''userId''|} \<and>
      isText (fmlookup d ''content'') \<and>
      fmlookup d ''timestamp'' = Some VServerTimestamp \<and>
      isText (fmlookup d ''userId''))"

text \<open>Two states that differ at most in the status string of the form.\<close>

definition onlyStatusChanged :: "app_state \<Rightarrow> app_state \<Rightarrow> bool" where
  "onlyStatusChanged s s' = (s' = s\<lparr>logMessage := logMessage s'\<rparr>)"

text \<open>
  A record whose \<open>timestamp\<close> is a stored time, null (a write still pending) or absent;
  the text shown for it; and the entry the snapshot callback builds from such a record.
\<close>

definition wellTimed :: "doc \<Rightarrow> bool" where
  "wellTimed d =
     (case fmlookup d ''timestamp'' of
        None \<Rightarrow> True
      | Some VNull \<Rightarrow> True
      | Some (VTimestamp t) \<Rightarrow> True
      | Some other \<Rightarrow> False)"

fun allWellTimed :: "(string \<times> doc) list \<Rightarrow> bool" where
  "allWellTimed [] = True"
| "allWellTimed (d # ds) = (wellTimed (snd d) \<and> allWellTimed ds)"

definition timeText :: "env \<Rightarrow> fsvalue option \<Rightarrow> string" where
  "timeText e v =
     (case v of
        Some (VTimestamp t) \<Rightarrow> (if toLocaleTimeString e t = [] then ''N/A'' else toLocaleTimeString e t)
      | other \<Rightarrow> ''N/A'')"

definition viewOf :: "env \<Rightarrow> string \<times> doc \<Rightarrow> doc" where
  "viewOf e d =
     fmupd ''timestamp'' (VStr (timeText e (fmlookup (snd d) ''timestamp'')))
       (fmupd ''id'' (VStr (fst d)) fmempty ++\<^sub>f snd d)"

text \<open>Two concrete environments for the examples: without and with a sign-in token.\<close>

definition demoEnv :: env where
  "demoEnv = \<lparr>app_id_global = None, firebaseConfigKeys = [''apiKey''],
     initial_auth_token_global = None, toLocaleTimeString = (\<lambda>t. ''10:15:00 AM'')\<rparr>"

definition tokenEnv :: env where
  "tokenEnv = \<lparr>app_id_global = None, firebaseConfigKeys = [''apiKey''],
     initial_auth_token_global = Some ''tok-1'', toLocaleTimeString = (\<lambda>t. ''10:15:00 AM'')\<rparr>"

section \<open>Basic facts\<close>

lemma db_None_iff: "db e = None \<longleftrightarrow> firebaseConfigKeys e = []"
  by (simp add: db_def app_def)

lemma auth_None_iff: "auth e = None \<longleftrightarrow> firebaseConfigKeys e = []"
  by (simp add: auth_def app_def)

lemma demoEnv_simps:
  "firebaseConfigKeys demoEnv = [''apiKey'']"
  "appId demoEnv = ''default-app-id''"
  "initialAuthToken demoEnv = None"
  "toLocaleTimeString demoEnv t = ''10:15:00 AM''"
  by (simp_all add: demoEnv_def appId_def initialAuthToken_def)

lemma tokenEnv_simps:
  "firebaseConfigKeys tokenEnv = [''apiKey'']"
  "appId tokenEnv = ''default-app-id''"
  "initialAuthToken tokenEnv = Some ''tok-1''"
  by (simp_all add: tokenEnv_def appId_def initialAuthToken_def)

lemma db_demoEnv: "db demoEnv \<noteq> None"
  by (simp add: db_None_iff demoEnv_simps)

lemma empty_dom_lookup: "fmdom m = {||} \<Longrightarrow> fmlookup m k = None"
  by (metis fmdom_notD fempty_iff)

lemma commit_dom: "fmdom (commit now d) = fmdom d"
  by (simp add: commit_def)

lemma commit_timestamp:
  "fmlookup d ''timestamp'' = Some VServerTimestamp \<Longrightarrow>
   fmlookup (commit now d) ''timestamp'' = Some (VTimestamp now)"
  by (simp add: commit_def resolveField_def)

lemma logInitialActivity_unfold:
  "logInitialActivity e probe wr st =
     (case probe of
        Some err \<Rightarrow> (st, GetDocs (probeQuery e) # seedFailed)
      | None \<Rightarrow>
          if fmdom st = {||}
          then (case wr of
                  Inl err \<Rightarrow>
                    (st, [GetDocs (probeQuery e), SetDoc (docPath e ''system-init'') initialActivity]
                         @ seedFailed)
                | Inr now \<Rightarrow>
                    (fmupd ''system-init'' (commit now initialActivity) st,
                     [GetDocs (probeQuery e), SetDoc (docPath e ''system-init'') initialActivity,
                      ConsoleLog ''Logged initial system activity.'']))
          else (st, [GetDocs (probeQuery e)]))"
  by (simp add: logInitialActivity_def logInitialActivityAt_def seedAfterProbe_def
      split: option.splits sum.splits)

lemma feedEffect_unfold:
  "feedEffect e probe wr s st =
     (if db e = None \<or> isAuthReady s = False then (st, [])
      else (fst (logInitialActivity e probe wr st),
            GetDocs (probeQuery e) # OnSnapshot (feedQuery e) # tl (snd (logInitialActivity e probe wr st))))"
  by (simp add: feedEffect_def logInitialActivity_def logInitialActivityAt_def case_prod_beta)

lemma feedEffect_effects:
  "set (snd (feedEffect e probe wr s st)) =
     (if db e = None \<or> isAuthReady s = False then {}
      else insert (OnSnapshot (feedQuery e)) (set (snd (logInitialActivity e probe wr st))))"
  by (auto simp: feedEffect_def logInitialActivity_def logInitialActivityAt_def case_prod_beta)

lemma logInitialActivity_keeps:
  "fmlookup st docId = Some d \<Longrightarrow> fmlookup (fst (logInitialActivity e probe wr st)) docId = Some d"
proof (cases "fmdom st = {||}")
  case True
  assume "fmlookup st docId = Some d"
  with True show ?thesis by (simp add: empty_dom_lookup)
next
  case False
  assume "fmlookup st docId = Some d"
  with False show ?thesis by (simp add: logInitialActivity_unfold split: option.splits)
qed

lemma logUserActivity_keeps:
  "newId |\<notin>| fmdom st \<Longrightarrow> fmlookup st docId = Some d \<Longrightarrow>
   fmlookup (fst (snd (logUserActivity e newId wr s st))) docId = Some d"
  by (auto simp: logUserActivity_def activityFailed_def Let_def dest: fmdomI split: sum.splits)

lemma step_keeps:
  "freshFor ev st \<Longrightarrow> fmlookup st docId = Some d \<Longrightarrow>
   fmlookup (snd (fst (step e ev (s, st)))) docId = Some d"
proof (cases ev)
  case (FeedEffect probe wr)
  assume "fmlookup st docId = Some d"
  then show ?thesis
    using logInitialActivity_keeps [of st docId d e probe wr]
    by (simp add: FeedEffect feedEffect_unfold case_prod_beta)
next
  case (ClickLog newId wr)
  assume "freshFor ev st" "fmlookup st docId = Some d"
  then show ?thesis
    using logUserActivity_keeps [of newId st docId d e wr s]
    by (simp add: ClickLog case_prod_beta)
qed (simp_all add: case_prod_beta)

lemma run_keeps:
  "freshIds e evs c \<Longrightarrow> fmlookup (snd c) docId = Some d \<Longrightarrow>
   fmlookup (snd (fst (run e evs c))) docId = Some d"
proof (induction evs arbitrary: c)
  case Nil
  then show ?case by simp
next
  case (Cons ev evs)
  obtain s st where c: "c = (s, st)" by (cases c)
  from Cons.prems have fresh: "freshFor ev st" and rest: "freshIds e evs (fst (step e ev c))"
    by (simp_all add: c)
  from Cons.prems have "fmlookup st docId = Some d" by (simp add: c)
  with fresh have "fmlookup (snd (fst (step e ev (s, st)))) docId = Some d"
    by (rule step_keeps)
  with rest have "fmlookup (snd (fst (run e evs (fst (step e ev c))))) docId = Some d"
    using Cons.IH [of "fst (step e ev c)"] by (simp add: c)
  then show ?case by (simp add: case_prod_beta)
qed

lemma logUserActivity_writes:
  "SetDoc p d \<in> set (snd (snd (logUserActivity e newId wr s st))) \<Longrightarrow>
   p = docPath e newId \<and> d = activityRecord s \<and> db e \<noteq> None \<and>
   falsy_str (userId s) = False \<and> trim (logMessage s) \<noteq> []"
  by (auto simp: logUserActivity_def activityFailed_def Let_def split: if_splits sum.splits)

lemma logInitialActivity_writes:
  "SetDoc p d \<in> set (snd (logInitialActivity e probe wr st)) \<Longrightarrow>
   p = docPath e ''system-init'' \<and> d = initialActivity \<and> probe = None \<and> fmdom st = {||}"
  by (auto simp: logInitialActivity_unfold seedFailed_def split: option.splits if_splits sum.splits)

lemma feedEffect_writes:
  "SetDoc p d \<in> set (snd (feedEffect e probe wr s st)) \<Longrightarrow>
   p = docPath e ''system-init'' \<and> d = initialActivity \<and> probe = None \<and> fmdom st = {||}"
  using logInitialActivity_writes [of p d e probe wr st]
  by (auto simp: feedEffect_effects split: if_splits)

lemma step_userId:
  "isAuthEvent ev = False \<Longrightarrow> userId (fst (fst (step e ev (s, st)))) = userId s"
  by (cases ev)
     (auto simp: mountEffect_def onSnapshot_next_def onSnapshot_error_def logUserActivity_def
        activityFailed_def Let_def case_prod_beta split: sum.splits)

lemma run_userId:
  "noAuthEvents evs \<Longrightarrow> userId (fst (fst (run e evs c))) = userId (fst c)"
proof (induction evs arbitrary: c)
  case Nil
  then show ?case by simp
next
  case (Cons ev evs)
  obtain s st where c: "c = (s, st)" by (cases c)
  from Cons.prems have ev: "isAuthEvent ev = False" and rest: "noAuthEvents evs"
    by simp_all
  have "userId (fst (fst (run e evs (fst (step e ev c))))) = userId (fst (fst (step e ev c)))"
    using Cons.IH [OF rest] .
  also have "\<dots> = userId s"
    using step_userId [OF ev] by (simp add: c)
  finally show ?case by (simp add: c case_prod_beta)
qed

section \<open>Logging a user activity: the guard and the successful write\<close>

text \<open>
  Claim C8. When \<^verbatim>\<open>logUserActivity\<close> is called with a null database handle, with a
  null user id, or with a message that is empty once trimmed, it writes no document
  and performs no other effect, and the component state, the status string included,
  and the collection are what they were.
\<close>

theorem logUserActivity_guard_noop:
  assumes "db e = None \<or> userId s = None \<or> trim (logMessage s) = []"
  shows "logUserActivity e newId wr s st = (s, st, [])"
  using assms by (auto simp: logUserActivity_def)

theorem logUserActivity_guard_noop_witness:
  "trim ''   '' = [] \<and>
   logUserActivity demoEnv ''id1'' (Inr 7)
     (initialState\<lparr>userId := Some ''u1'', logMessage := ''   ''\<rparr>) fmempty
   = (initialState\<lparr>userId := Some ''u1'', logMessage := ''   ''\<rparr>, fmempty, [])"
proof -
  have blank: "trim ''   '' = []"
    by (simp add: trim_def is_js_space_def)
  then have "trim (logMessage (initialState\<lparr>userId := Some ''u1'', logMessage := ''   ''\<rparr>)) = []"
    by simp
  then show ?thesis
    using blank logUserActivity_guard_noop
      [of demoEnv "initialState\<lparr>userId := Some ''u1'', logMessage := ''   ''\<rparr>" "''id1''" "Inr 7" fmempty]
    by blast
qed

text \<open>
  Claim C9. When the guard passes and the write succeeds, the content of the record
  handed to \<^verbatim>\<open>setDoc\<close>, and of the document the store keeps, is the trimmed message of
  the state the call started in, not the transient \<^verbatim>\<open>'Logging...'\<close> status, and the
  status string ends as the empty string.
\<close>

theorem logUserActivity_success_content:
  assumes "db e \<noteq> None" and "userId s = Some u" and "u \<noteq> []" and "trim (logMessage s) \<noteq> []"
  shows "\<exists>d. logUserActivity e newId (Inr now) s st =
              (s\<lparr>logMessage := []\<rparr>, fmupd newId (commit now d) st, [SetDoc (docPath e newId) d]) \<and>
             fmlookup d ''content'' = Some (VStr (trim (logMessage s))) \<and>
             fmlookup (commit now d) ''content'' = Some (VStr (trim (logMessage s)))"
  using assms
  by (auto simp: logUserActivity_def activityRecord_def commit_def resolveField_def)

theorem logUserActivity_success_content_witness:
  "\<exists>d. logUserActivity demoEnv ''id1'' (Inr 7)
          (initialState\<lparr>userId := Some ''u1'', logMessage := '' hello ''\<rparr>) fmempty =
        (initialState\<lparr>userId := Some ''u1'', logMessage := []\<rparr>,
         fmupd ''id1'' (commit 7 d) fmempty,
         [SetDoc ''artifacts/default-app-id/public/data/app_activities/id1'' d]) \<and>
        fmlookup d ''content'' = Some (VStr ''hello'') \<and>
        fmlookup (commit 7 d) ''content'' = Some (VStr ''hello'')"
proof -
  let ?s = "initialState\<lparr>userId := Some ''u1'', logMessage := '' hello ''\<rparr>"
  have tr: "trim '' hello '' = ''hello''"
    by (simp add: trim_def is_js_space_def)
  have path: "docPath demoEnv ''id1'' = ''artifacts/default-app-id/public/data/app_activities/id1''"
    by (simp add: docPath_def ACTIVITIES_COLLECTION_PATH_def demoEnv_simps)
  have "userId ?s = Some ''u1''" and "''u1'' \<noteq> []" and "trim (logMessage ?s) \<noteq> []"
    by (simp_all add: tr)
  from logUserActivity_success_content [OF db_demoEnv this, of "''id1''" 7 fmempty]
  show ?thesis by (simp add: tr path)
qed

section \<open>Signing in\<close>

lemma no_signIn_for_signed_in_user:
  "filter isSignIn (snd (onAuthStateChanged_cb e (Some uid) signIn docSnap s)) = []"
  by (auto simp: onAuthStateChanged_cb_def checkAdminStatus_def adminCheckFailed_def Let_def
      case_prod_beta split: sum.splits option.splits)

text \<open>
  Claim C6. Whenever the auth-state callback runs with no signed-in user, it makes
  exactly one sign-in call: with the supplied token when there is one (and then no
  anonymous sign-in at all), anonymously otherwise. This holds whether the call
  succeeds or throws.
\<close>

theorem signIn_exactly_once:
  "(tokenSupplied e \<longrightarrow>
      (\<exists>t. initialAuthToken e = Some t \<and>
           filter isSignIn (snd (onAuthStateChanged_cb e None signIn docSnap s)) =
             [SignInWithCustomToken t]) \<and>
      SignInAnonymously \<notin> set (snd (onAuthStateChanged_cb e None signIn docSnap s))) \<and>
   (tokenSupplied e = False \<longrightarrow>
      filter isSignIn (snd (onAuthStateChanged_cb e None signIn docSnap s)) = [SignInAnonymously])"
  by (cases signIn; cases "initialAuthToken e")
     (auto simp: onAuthStateChanged_cb_def signInCall_def authFailed_def tokenSupplied_def)

theorem signIn_exactly_once_witness:
  "tokenSupplied tokenEnv \<and>
   filter isSignIn (snd (onAuthStateChanged_cb tokenEnv None None (Inr None) initialState)) =
     [SignInWithCustomToken ''tok-1''] \<and>
   SignInAnonymously \<notin> set (snd (onAuthStateChanged_cb tokenEnv None None (Inr None) initialState)) \<and>
   tokenSupplied demoEnv = False \<and>
   filter isSignIn (snd (onAuthStateChanged_cb demoEnv None (Some FirebaseError) (Inr None) initialState)) =
     [SignInAnonymously]"
proof -
  have a: "tokenSupplied tokenEnv"
    by (simp add: tokenSupplied_def tokenEnv_simps)
  have b: "tokenSupplied demoEnv = False"
    by (simp add: tokenSupplied_def demoEnv_simps)
  from a signIn_exactly_once [of tokenEnv None "Inr None" initialState]
  have "(\<exists>t. initialAuthToken tokenEnv = Some t \<and>
           filter isSignIn (snd (onAuthStateChanged_cb tokenEnv None None (Inr None) initialState)) =
             [SignInWithCustomToken t]) \<and>
        SignInAnonymously \<notin> set (snd (onAuthStateChanged_cb tokenEnv None None (Inr None) initialState))"
    by blast
  then have c:
    "filter isSignIn (snd (onAuthStateChanged_cb tokenEnv None None (Inr None) initialState)) =
       [SignInWithCustomToken ''tok-1''] \<and>
     SignInAnonymously \<notin> set (snd (onAuthStateChanged_cb tokenEnv None None (Inr None) initialState))"
    by (auto simp: tokenEnv_simps)
  from b signIn_exactly_once [of demoEnv "Some FirebaseError" "Inr None" initialState]
  have "filter isSignIn (snd (onAuthStateChanged_cb demoEnv None (Some FirebaseError) (Inr None) initialState)) =
     [SignInAnonymously]"
    by blast
  with a b c show ?thesis by blast
qed

text \<open>
  Claim C10. When the sign-in call throws, the callback sets the user id to the
  literal \<^verbatim>\<open>'anonymous'\<close>, marks authentication as ready and ends the loading state,
  so the page is rendered in place of the loading screen. Until the next auth-state
  change, whatever else happens, every record that \<^verbatim>\<open>logUserActivity\<close> writes carries
  the user id \<^verbatim>\<open>'anonymous'\<close>, and with a database handle and a non-blank message such a
  record is indeed written and stored.
\<close>

theorem failed_signIn_continues_as_anonymous:
  assumes "s1 = fst (onAuthStateChanged_cb e None (Some err) docSnap s)"
  shows "userId s1 = Some ''anonymous'' \<and> isAuthReady s1 \<and> loading s1 = False \<and>
         render s1 \<noteq> Connecting \<and>
         (noAuthEvents evs \<longrightarrow> run e evs (s1, st) = ((s2, st2), fx) \<longrightarrow>
            (\<forall>p d. SetDoc p d \<in> set (snd (snd (logUserActivity e newId wr s2 st2))) \<longrightarrow>
                   fmlookup d ''userId'' = Some (VStr ''anonymous'')) \<and>
            (db e \<noteq> None \<longrightarrow> trim (logMessage s2) \<noteq> [] \<longrightarrow>
               (\<exists>r. fmlookup (fst (snd (logUserActivity e newId (Inr now) s2 st2))) newId = Some r \<and>
                    fmlookup r ''userId'' = Some (VStr ''anonymous''))))"
proof -
  have s1: "s1 = s\<lparr>userId := Some ''anonymous'', isAuthReady := True, loading := False\<rparr>"
    by (simp add: assms onAuthStateChanged_cb_def authFailed_def)
  have later: "userId s2 = Some ''anonymous''"
    if "noAuthEvents evs" and "run e evs (s1, st) = ((s2, st2), fx)"
    using run_userId [OF that(1), of e "(s1, st)"] that(2) by (simp add: s1)
  have writes: "fmlookup d ''userId'' = Some (VStr ''anonymous'')"
    if "userId s2 = Some ''anonymous''"
      and "SetDoc p d \<in> set (snd (snd (logUserActivity e newId wr s2 st2)))" for p d
    using logUserActivity_writes [OF that(2)] that(1) by (simp add: activityRecord_def)
  have stored: "\<exists>r. fmlookup (fst (snd (logUserActivity e newId (Inr now) s2 st2))) newId = Some r \<and>
                    fmlookup r ''userId'' = Some (VStr ''anonymous'')"
    if "userId s2 = Some ''anonymous''" and "db e \<noteq> None" and "trim (logMessage s2) \<noteq> []"
    using that
    by (auto simp: logUserActivity_def activityRecord_def commit_def resolveField_def)
  show ?thesis
    using later writes stored by (simp add: s1 render_def)
qed

theorem failed_signIn_continues_as_anonymous_witness:
  "userId (fst (onAuthStateChanged_cb demoEnv None (Some FirebaseError) (Inr None) initialState)) =
     Some ''anonymous'' \<and>
   isAuthReady (fst (onAuthStateChanged_cb demoEnv None (Some FirebaseError) (Inr None) initialState)) \<and>
   loading (fst (onAuthStateChanged_cb demoEnv None (Some FirebaseError) (Inr None) initialState)) = False \<and>
   (\<exists>r. fmlookup
          (fst (snd (logUserActivity demoEnv ''id1'' (Inr 9)
             (initialState\<lparr>userId := Some ''anonymous'', isAuthReady := True, loading := False,
                logMessage := ''hello''\<rparr>) fmempty))) ''id1'' = Some r \<and>
        fmlookup r ''userId'' = Some (VStr ''anonymous''))"
proof -
  let ?s1 = "fst (onAuthStateChanged_cb demoEnv None (Some FirebaseError) (Inr None) initialState)"
  let ?s2 = "initialState\<lparr>userId := Some ''anonymous'', isAuthReady := True, loading := False,
                logMessage := ''hello''\<rparr>"
  have r: "run demoEnv [FeedEffect (Some FirebaseError) (Inr 0), InputChange ''hello''] (?s1, fmempty) =
             ((?s2, fmempty), [GetDocs (probeQuery demoEnv), OnSnapshot (feedQuery demoEnv),
                ConsoleError ''Error logging initial activity:''])"
    by (simp add: onAuthStateChanged_cb_def authFailed_def feedEffect_unfold logInitialActivity_unfold
        seedFailed_def db_None_iff demoEnv_simps initialState_def)
  have n: "noAuthEvents [FeedEffect (Some FirebaseError) (Inr 0), InputChange ''hello'']"
    by simp
  have t: "trim (logMessage ?s2) \<noteq> []"
    by (simp add: trim_def is_js_space_def)
  from failed_signIn_continues_as_anonymous [OF refl, of demoEnv FirebaseError "Inr None" initialState
      "[FeedEffect (Some FirebaseError) (Inr 0), InputChange ''hello'']" fmempty ?s2 fmempty
      "[GetDocs (probeQuery demoEnv), OnSnapshot (feedQuery demoEnv),
        ConsoleError ''Error logging initial activity:'']" "''id1''" _ 9]
    n r t db_demoEnv
  show ?thesis by blast
qed

section \<open>What a write can change\<close>

text \<open>
  Claim C7 says that every existing activity record is left unchanged by every
  operation, and that the seed write happens only when the collection is empty. Two
  clients that start on an empty collection both find it empty; the first stores the
  seed record, and the write of the second, committed to a collection that is no
  longer empty, replaces that record by one with a later time. And a user-action write
  whose generated id is already in use replaces the record that has the id: the code
  writes with \<^verbatim>\<open>setDoc\<close> and never looks at the id.
\<close>

theorem existing_record_replaced:
  "fmlookup (fst (logInitialActivity demoEnv None (Inr 3) fmempty)) ''system-init'' =
     Some (commit 3 initialActivity) \<and>
   fmlookup (fst (logInitialActivityAt demoEnv None (Inr 5) fmempty
       (fst (logInitialActivity demoEnv None (Inr 3) fmempty)))) ''system-init'' =
     Some (commit 5 initialActivity) \<and>
   commit 5 initialActivity \<noteq> commit 3 initialActivity \<and>
   fmlookup (fmupd ''a0'' (fmupd ''content'' (VStr ''old'') fmempty) fmempty) ''a0'' =
     Some (fmupd ''content'' (VStr ''old'') fmempty) \<and>
   fmlookup (fst (snd (logUserActivity demoEnv ''a0'' (Inr 4)
       (initialState\<lparr>userId := Some ''u1'', logMessage := ''hi''\<rparr>)
       (fmupd ''a0'' (fmupd ''content'' (VStr ''old'') fmempty) fmempty)))) ''a0'' \<noteq>
     Some (fmupd ''content'' (VStr ''old'') fmempty)"
proof -
  have first: "fst (logInitialActivity demoEnv None (Inr 3) fmempty) =
                 fmupd ''system-init'' (commit 3 initialActivity) fmempty"
    by (simp add: logInitialActivity_unfold)
  have second: "fst (logInitialActivityAt demoEnv None (Inr 5) fmempty
                  (fmupd ''system-init'' (commit 3 initialActivity) fmempty)) =
                fmupd ''system-init'' (commit 5 initialActivity)
                  (fmupd ''system-init'' (commit 3 initialActivity) fmempty)"
    by (simp add: logInitialActivityAt_def seedAfterProbe_def)
  have stamp: "fmlookup initialActivity ''timestamp'' = Some VServerTimestamp"
    by (simp add: initialActivity_def)
  have differ: "commit 5 initialActivity \<noteq> commit 3 initialActivity"
  proof
    assume "commit 5 initialActivity = commit 3 initialActivity"
    then have "fmlookup (commit 5 initialActivity) ''timestamp'' =
               fmlookup (commit 3 initialActivity) ''timestamp''"
      by simp
    then show False
      by (simp add: commit_timestamp [OF stamp])
  qed
  have t: "trim ''hi'' = ''hi''"
    by (simp add: trim_def is_js_space_def)
  have click: "fst (snd (logUserActivity demoEnv ''a0'' (Inr 4)
       (initialState\<lparr>userId := Some ''u1'', logMessage := ''hi''\<rparr>)
       (fmupd ''a0'' (fmupd ''content'' (VStr ''old'') fmempty) fmempty))) =
     fmupd ''a0'' (commit 4 (activityRecord (initialState\<lparr>userId := Some ''u1'', logMessage := ''hi''\<rparr>)))
       (fmupd ''a0'' (fmupd ''content'' (VStr ''old'') fmempty) fmempty)"
    by (simp add: logUserActivity_def db_None_iff demoEnv_simps t)
  have "fmlookup (commit 4 (activityRecord (initialState\<lparr>userId := Some ''u1'', logMessage := ''hi''\<rparr>)))
          ''content'' \<noteq> fmlookup (fmupd ''content'' (VStr ''old'') fmempty) ''content''"
    by (simp add: commit_def activityRecord_def resolveField_def t)
  then have other: "commit 4 (activityRecord (initialState\<lparr>userId := Some ''u1'', logMessage := ''hi''\<rparr>)) \<noteq>
                    fmupd ''content'' (VStr ''old'') fmempty"
    by metis
  show ?thesis
    unfolding first second click using differ other by simp
qed

text \<open>
  Claim C7, amended. No operation deletes an activity record, and a write changes at
  most the document at its own target. A user-action write targets only the reference
  newly generated for it. The seed write targets only the fixed id \<^verbatim>\<open>system-init\<close>
  and is attempted only when its probing read found the collection empty; where it
  changes the document at that id, the document becomes the seed record. So every
  existing record is left unchanged by a user-action write whose generated id is not
  in use, by a seed write committed to a collection without a \<^verbatim>\<open>system-init\<close>
  record or to the collection its read saw, and by every run of events that
  generates unused ids and has nothing written between a seed's read and its write.
  Only a click on the button and the feed effect write at all.
\<close>

theorem writes_change_only_their_target:
  "(fmdom st |\<subseteq>| fmdom (fst (snd (logUserActivity e newId wr s st))) \<and>
    (docId \<noteq> newId \<longrightarrow>
       fmlookup (fst (snd (logUserActivity e newId wr s st))) docId = fmlookup st docId) \<and>
    (SetDoc p r \<in> set (snd (snd (logUserActivity e newId wr s st))) \<longrightarrow> p = docPath e newId)) \<and>
   (fmdom st |\<subseteq>| fmdom (fst (logInitialActivityAt e probe wr seen st)) \<and>
    (docId \<noteq> ''system-init'' \<longrightarrow>
       fmlookup (fst (logInitialActivityAt e probe wr seen st)) docId = fmlookup st docId) \<and>
    (SetDoc p r \<in> set (snd (logInitialActivityAt e probe wr seen st)) \<longrightarrow>
       p = docPath e ''system-init'' \<and> probe = None \<and> fmdom seen = {||}) \<and>
    (fmlookup (fst (logInitialActivityAt e probe wr seen st)) ''system-init'' \<noteq>
       fmlookup st ''system-init'' \<longrightarrow>
       probe = None \<and> fmdom seen = {||} \<and>
       (\<exists>now. wr = Inr now \<and>
          fmlookup (fst (logInitialActivityAt e probe wr seen st)) ''system-init'' =
            Some (commit now initialActivity)))) \<and>
   (fmlookup st docId = Some d \<longrightarrow>
      (newId |\<notin>| fmdom st \<longrightarrow>
         fmlookup (fst (snd (logUserActivity e newId wr s st))) docId = Some d) \<and>
      (''system-init'' |\<notin>| fmdom st \<or> seen = st \<longrightarrow>
         fmlookup (fst (logInitialActivityAt e probe wr seen st)) docId = Some d) \<and>
      (freshIds e evs (s, st) \<longrightarrow> fmlookup (snd (fst (run e evs (s, st)))) docId = Some d)) \<and>
   (SetDoc p r \<in> set (snd (step e ev (s, st))) \<longrightarrow>
      (\<exists>newId wr. ev = ClickLog newId wr \<and> p = docPath e newId) \<or>
      (\<exists>probe wr. ev = FeedEffect probe wr \<and> p = docPath e ''system-init'' \<and> fmdom st = {||}))"
proof -
  have u1: "fmdom st |\<subseteq>| fmdom (fst (snd (logUserActivity e newId wr s st)))"
    by (cases wr) (auto simp: logUserActivity_def activityFailed_def Let_def)
  have u2: "fmlookup (fst (snd (logUserActivity e newId wr s st))) docId = fmlookup st docId"
    if "docId \<noteq> newId"
    using that by (cases wr) (auto simp: logUserActivity_def activityFailed_def Let_def)
  have u3: "p = docPath e newId"
    if "SetDoc p r \<in> set (snd (snd (logUserActivity e newId wr s st)))"
    using logUserActivity_writes [OF that] by simp
  have s1: "fmdom st |\<subseteq>| fmdom (fst (logInitialActivityAt e probe wr seen st))"
    by (cases probe; cases wr)
       (auto simp: logInitialActivityAt_def seedAfterProbe_def)
  have s2: "fmlookup (fst (logInitialActivityAt e probe wr seen st)) docId = fmlookup st docId"
    if "docId \<noteq> ''system-init''"
    using that by (cases probe; cases wr)
       (auto simp: logInitialActivityAt_def seedAfterProbe_def)
  have s3: "p = docPath e ''system-init'' \<and> probe = None \<and> fmdom seen = {||}"
    if "SetDoc p r \<in> set (snd (logInitialActivityAt e probe wr seen st))"
    using that by (cases probe; cases wr)
       (auto simp: logInitialActivityAt_def seedAfterProbe_def seedFailed_def split: if_splits)
  have s4: "probe = None \<and> fmdom seen = {||} \<and>
       (\<exists>now. wr = Inr now \<and>
          fmlookup (fst (logInitialActivityAt e probe wr seen st)) ''system-init'' =
            Some (commit now initialActivity))"
    if "fmlookup (fst (logInitialActivityAt e probe wr seen st)) ''system-init'' \<noteq>
          fmlookup st ''system-init''"
    using that by (cases probe; cases wr)
       (auto simp: logInitialActivityAt_def seedAfterProbe_def split: if_splits)
  have k1: "fmlookup (fst (snd (logUserActivity e newId wr s st))) docId = Some d"
    if "fmlookup st docId = Some d" and "newId |\<notin>| fmdom st"
    using logUserActivity_keeps [OF that(2) that(1)] .
  have k2: "fmlookup (fst (logInitialActivityAt e probe wr seen st)) docId = Some d"
    if old: "fmlookup st docId = Some d" and free: "''system-init'' |\<notin>| fmdom st \<or> seen = st"
  proof (cases "docId = ''system-init''")
    case False
    with s2 old show ?thesis by simp
  next
    case True
    with old have "''system-init'' |\<in>| fmdom st"
      by (simp add: fmdomI)
    with free have same: "seen = st" by blast
    from old have "fmdom st \<noteq> {||}"
      using empty_dom_lookup [of st docId] by auto
    with same old show ?thesis
      by (simp add: logInitialActivityAt_def seedAfterProbe_def split: option.splits)
  qed
  have k3: "fmlookup (snd (fst (run e evs (s, st)))) docId = Some d"
    if "fmlookup st docId = Some d" and "freshIds e evs (s, st)"
    using run_keeps [OF that(2)] that(1) by simp
  have targets:
    "(\<exists>newId wr. ev = ClickLog newId wr \<and> p = docPath e newId) \<or>
     (\<exists>probe wr. ev = FeedEffect probe wr \<and> p = docPath e ''system-init'' \<and> fmdom st = {||})"
    if w: "SetDoc p r \<in> set (snd (step e ev (s, st)))"
  proof (cases ev)
    case (ClickLog newId wr)
    with w have "SetDoc p r \<in> set (snd (snd (logUserActivity e newId wr s st)))"
      by (simp add: case_prod_beta)
    from logUserActivity_writes [OF this] show ?thesis
      by (simp add: ClickLog)
  next
    case (FeedEffect probe wr)
    with w have "SetDoc p r \<in> set (snd (feedEffect e probe wr s st))"
      by (simp add: case_prod_beta)
    from feedEffect_writes [OF this] show ?thesis
      by (simp add: FeedEffect)
  next
    case Mount
    with w show ?thesis
      by (simp add: mountEffect_def case_prod_beta split: if_splits)
  next
    case (AuthStateChanged user signIn docSnap)
    with w show ?thesis
      by (auto simp: onAuthStateChanged_cb_def checkAdminStatus_def adminCheckFailed_def
          authFailed_def signInCall_def Let_def case_prod_beta
          split: option.splits sum.splits if_splits)
  next
    case (SnapshotNext docs)
    with w show ?thesis
      by (simp add: onSnapshot_next_def case_prod_beta split: sum.splits)
  next
    case SnapshotError
    with w show ?thesis
      by (simp add: onSnapshot_error_def)
  next
    case (InputChange v)
    with w show ?thesis by simp
  qed
  from u1 u2 u3 s1 s2 s3 s4 k1 k2 k3 targets show ?thesis by blast
qed

theorem writes_change_only_their_target_witness:
  "freshIds demoEnv
     [FeedEffect None (Inr 3), InputChange ''hi'', ClickLog ''id1'' (Inr 4)]
     (initialState\<lparr>userId := Some ''u1'', isAuthReady := True\<rparr>,
      fmupd ''a0'' (fmupd ''content'' (VStr ''old'') fmempty) fmempty) \<and>
   fmlookup (snd (fst (run demoEnv
     [FeedEffect None (Inr 3), InputChange ''hi'', ClickLog ''id1'' (Inr 4)]
     (initialState\<lparr>userId := Some ''u1'', isAuthReady := True\<rparr>,
      fmupd ''a0'' (fmupd ''content'' (VStr ''old'') fmempty) fmempty)))) ''a0'' =
     Some (fmupd ''content'' (VStr ''old'') fmempty) \<and>
   ''system-init'' |\<notin>| fmdom (fmupd ''a0'' (fmupd ''content'' (VStr ''old'') fmempty) (fmempty :: store)) \<and>
   fmlookup (fst (logInitialActivityAt demoEnv None (Inr 5) fmempty
     (fmupd ''a0'' (fmupd ''content'' (VStr ''old'') fmempty) fmempty))) ''a0'' =
     Some (fmupd ''content'' (VStr ''old'') fmempty) \<and>
   ''id1'' |\<notin>| fmdom (fmupd ''a0'' (fmupd ''content'' (VStr ''old'') fmempty) (fmempty :: store)) \<and>
   fmlookup (fst (snd (logUserActivity demoEnv ''id1'' (Inr 4)
     (initialState\<lparr>userId := Some ''u1'', isAuthReady := True\<rparr>)
     (fmupd ''a0'' (fmupd ''content'' (VStr ''old'') fmempty) fmempty)))) ''a0'' =
     Some (fmupd ''content'' (VStr ''old'') fmempty)"
proof -
  let ?evs = "[FeedEffect None (Inr 3), InputChange ''hi'', ClickLog ''id1'' (Inr 4)]"
  let ?s = "initialState\<lparr>userId := Some ''u1'', isAuthReady := True\<rparr>"
  let ?old = "fmupd ''content'' (VStr ''old'') fmempty :: doc"
  let ?st = "fmupd ''a0'' ?old fmempty :: store"
  have fresh: "freshIds demoEnv ?evs (?s, ?st)"
    by (simp add: feedEffect_unfold logInitialActivity_unfold db_None_iff demoEnv_simps)
  have old: "fmlookup ?st ''a0'' = Some ?old"
    by simp
  have noseed: "''system-init'' |\<notin>| fmdom ?st" and noid: "''id1'' |\<notin>| fmdom ?st"
    by simp_all
  from writes_change_only_their_target [of ?st demoEnv "''id1''" "Inr 4" ?s "''a0''"
      "docPath demoEnv ''id1''" initialActivity None fmempty ?old ?evs "FeedEffect None (Inr 3)"]
    old
  have all: "(''id1'' |\<notin>| fmdom ?st \<longrightarrow>
         fmlookup (fst (snd (logUserActivity demoEnv ''id1'' (Inr 4) ?s ?st))) ''a0'' = Some ?old) \<and>
      (''system-init'' |\<notin>| fmdom ?st \<or> fmempty = ?st \<longrightarrow>
         fmlookup (fst (logInitialActivityAt demoEnv None (Inr 4) fmempty ?st)) ''a0'' = Some ?old) \<and>
      (freshIds demoEnv ?evs (?s, ?st) \<longrightarrow>
         fmlookup (snd (fst (run demoEnv ?evs (?s, ?st)))) ''a0'' = Some ?old)"
    by blast
  from writes_change_only_their_target [of ?st demoEnv "''id1''" "Inr 5" ?s "''a0''"
      "docPath demoEnv ''id1''" initialActivity None fmempty ?old ?evs "FeedEffect None (Inr 3)"]
    old noseed
  have seed: "fmlookup (fst (logInitialActivityAt demoEnv None (Inr 5) fmempty ?st)) ''a0'' = Some ?old"
    by blast
  from all fresh noid
  have "fmlookup (fst (snd (logUserActivity demoEnv ''id1'' (Inr 4) ?s ?st))) ''a0'' = Some ?old"
    and "fmlookup (snd (fst (run demoEnv ?evs (?s, ?st)))) ''a0'' = Some ?old"
    by blast+
  with fresh noseed noid seed show ?thesis by blast
qed

section \<open>The fields of the records written\<close>

text \<open>
  Claim C2 says that every record this code creates has the five fields content,
  timestamp, userId, is_admin and app_version, the seed record included. The seed
  record has only the first three: the feed effect, run on an empty collection, hands
  \<^verbatim>\<open>setDoc\<close> a record without is_admin and app_version.
\<close>

theorem seed_record_lacks_fields:
  "SetDoc (docPath demoEnv ''system-init'') initialActivity \<in>
     set (snd (step demoEnv (FeedEffect None (Inr 3)) (initialState\<lparr>isAuthReady := True\<rparr>, fmempty))) \<and>
   ''is_admin'' |\<notin>| fmdom initialActivity \<and>
   ''app_version'' |\<notin>| fmdom initialActivity \<and>
   \<not> userActivityFields initialActivity"
  by (simp add: feedEffect_unfold logInitialActivity_unfold db_None_iff demoEnv_simps
      initialActivity_def userActivityFields_def)

text \<open>
  Claim C2, amended. Every record written by the user action has exactly the fields
  content (text), timestamp (the server-time sentinel), userId (text), is_admin
  (boolean) and app_version (text); the seed record has exactly content (text),
  timestamp (the server-time sentinel) and userId (text); nothing else writes a record.
  The store keeps the same fields, with the server's time in place of the sentinel.
\<close>

theorem written_record_fields:
  "(SetDoc p d \<in> set (snd (step e ev (s, st))) \<longrightarrow>
      (\<exists>newId wr. ev = ClickLog newId wr \<and> userActivityFields d) \<or>
      (\<exists>probe wr. ev = FeedEffect probe wr \<and> seedFields d)) \<and>
   (userActivityFields d \<or> seedFields d \<longrightarrow>
      fmdom (commit now d) = fmdom d \<and>
      fmlookup (commit now d) ''timestamp'' = Some (VTimestamp now))"
proof -
  have user: "userActivityFields (activityRecord s)" if "falsy_str (userId s) = False"
    using that by (cases "userId s") (simp_all add: userActivityFields_def activityRecord_def)
  have seed: "seedFields initialActivity"
    by (simp add: seedFields_def initialActivity_def)
  have shapes:
    "(\<exists>newId wr. ev = ClickLog newId wr \<and> userActivityFields d) \<or>
     (\<exists>probe wr. ev = FeedEffect probe wr \<and> seedFields d)"
    if w: "SetDoc p d \<in> set (snd (step e ev (s, st)))"
  proof (cases ev)
    case (ClickLog newId wr)
    with w have "SetDoc p d \<in> set (snd (snd (logUserActivity e newId wr s st)))"
      by (simp add: case_prod_beta)
    from logUserActivity_writes [OF this] user show ?thesis
      by (simp add: ClickLog)
  next
    case (FeedEffect probe wr)
    with w have "SetDoc p d \<in> set (snd (feedEffect e probe wr s st))"
      by (simp add: case_prod_beta)
    from feedEffect_writes [OF this] seed show ?thesis
      by (simp add: FeedEffect)
  next
    case Mount
    with w show ?thesis
      by (simp add: mountEffect_def case_prod_beta split: if_splits)
  next
    case (AuthStateChanged user signIn docSnap)
    with w show ?thesis
      by (auto simp: onAuthStateChanged_cb_def checkAdminStatus_def adminCheckFailed_def
          authFailed_def signInCall_def Let_def case_prod_beta
          split: option.splits sum.splits if_splits)
  next
    case (SnapshotNext docs)
    with w show ?thesis
      by (simp add: onSnapshot_next_def case_prod_beta split: sum.splits)
  next
    case SnapshotError
    with w show ?thesis
      by (simp add: onSnapshot_error_def)
  next
    case (InputChange v)
    with w show ?thesis by simp
  qed
  have "fmlookup d ''timestamp'' = Some VServerTimestamp" if "userActivityFields d \<or> seedFields d"
    using that unfolding userActivityFields_def seedFields_def by blast
  then have kept: "fmdom (commit now d) = fmdom d \<and>
              fmlookup (commit now d) ''timestamp'' = Some (VTimestamp now)"
    if "userActivityFields d \<or> seedFields d"
    using that commit_dom [of now d] commit_timestamp [of d now] by blast
  from shapes kept show ?thesis by blast
qed

theorem written_record_fields_witness:
  "SetDoc (docPath demoEnv ''id1'')
      (activityRecord (initialState\<lparr>userId := Some ''u1'', logMessage := ''hello''\<rparr>)) \<in>
     set (snd (step demoEnv (ClickLog ''id1'' (Inr 4))
       (initialState\<lparr>userId := Some ''u1'', logMessage := ''hello''\<rparr>, fmempty))) \<and>
   userActivityFields (activityRecord (initialState\<lparr>userId := Some ''u1'', logMessage := ''hello''\<rparr>)) \<and>
   fmlookup (commit 4 (activityRecord (initialState\<lparr>userId := Some ''u1'', logMessage := ''hello''\<rparr>)))
      ''timestamp'' = Some (VTimestamp 4)"
proof -
  let ?s = "initialState\<lparr>userId := Some ''u1'', logMessage := ''hello''\<rparr>"
  have t: "trim ''hello'' = ''hello''"
    by (simp add: trim_def is_js_space_def)
  have w: "SetDoc (docPath demoEnv ''id1'') (activityRecord ?s) \<in>
             set (snd (step demoEnv (ClickLog ''id1'' (Inr 4)) (?s, fmempty)))"
    by (simp add: logUserActivity_def db_None_iff demoEnv_simps t)
  from written_record_fields [of "docPath demoEnv ''id1''" "activityRecord ?s" demoEnv
      "ClickLog ''id1'' (Inr 4)" ?s fmempty 4] w
  have "userActivityFields (activityRecord ?s) \<and>
        fmlookup (commit 4 (activityRecord ?s)) ''timestamp'' = Some (VTimestamp 4)"
    by auto
  with w show ?thesis by simp
qed

section \<open>The seed record\<close>




section \<open>Failures\<close>

text \<open>
  Claim C4 says that on a failure the handler only logs or sets the status string and
  changes no other state. The handler of a failed sign-in also sets the user id: the
  state after a failed sign-in differs from the state after a successful one in more
  than the status string. Likewise the handler of a failed admin check sets isAdmin,
  which turns an admin of the previous check into a standard user.
\<close>

theorem failed_signIn_changes_userId:
  "\<not> onlyStatusChanged
       (fst (onAuthStateChanged_cb demoEnv None None (Inr None) initialState))
       (fst (onAuthStateChanged_cb demoEnv None (Some FirebaseError) (Inr None) initialState)) \<and>
   userId (fst (onAuthStateChanged_cb demoEnv None None (Inr None) initialState)) = None \<and>
   userId (fst (onAuthStateChanged_cb demoEnv None (Some FirebaseError) (Inr None) initialState)) =
     Some ''anonymous'' \<and>
   isAdmin (initialState\<lparr>isAdmin := True\<rparr>) \<and>
   isAdmin (fst (checkAdminStatus demoEnv ''u2'' (Inl FirebaseError) (initialState\<lparr>isAdmin := True\<rparr>))) =
     False"
proof -
  have adm: "isAdmin (fst (checkAdminStatus demoEnv ''u2'' (Inl FirebaseError)
               (initialState\<lparr>isAdmin := True\<rparr>))) = False"
    by (simp add: checkAdminStatus_def adminCheckFailed_def db_None_iff demoEnv_simps)
  have ok: "fst (onAuthStateChanged_cb demoEnv None None (Inr None) initialState) =
              initialState\<lparr>isAuthReady := True, loading := False\<rparr>"
    by (simp add: onAuthStateChanged_cb_def)
  have bad: "fst (onAuthStateChanged_cb demoEnv None (Some FirebaseError) (Inr None) initialState) =
              initialState\<lparr>userId := Some ''anonymous'', isAuthReady := True, loading := False\<rparr>"
    by (simp add: onAuthStateChanged_cb_def authFailed_def)
  show ?thesis
    unfolding ok bad adm by (simp add: onlyStatusChanged_def initialState_def)
qed

text \<open>
  Claim C4, amended. Every failure is caught where it occurs: the function returns
  normally, having made the failing backend call once and logged one error, with no
  further call. Besides logging, the handler of a failed sign-in sets the user id to
  \<^verbatim>\<open>'anonymous'\<close> (after which the callback marks authentication ready and ends
  loading, as on every path); the handler of a failed admin check sets isAdmin to
  false; the handler of a failed seed read or write changes nothing; and the handler
  of a failed activity write sets the status string to \<^verbatim>\<open>'Error logging activity.'\<close>.
  Nothing else changes.
\<close>

theorem failures_caught_and_logged:
  "onAuthStateChanged_cb e None (Some err) docSnap s =
     (s\<lparr>userId := Some ''anonymous'', isAuthReady := True, loading := False\<rparr>,
      [signInCall e, ConsoleError ''Authentication failed:'']) \<and>
   (db e \<noteq> None \<and> u \<noteq> [] \<longrightarrow>
      checkAdminStatus e u (Inl err) s =
        (s\<lparr>isAdmin := False\<rparr>,
         [GetDoc (ADMINS_DOC_PATH e), ConsoleError ''Error checking admin status:''])) \<and>
   logInitialActivity e (Some err) wr st =
     (st, [GetDocs (probeQuery e), ConsoleError ''Error logging initial activity:'']) \<and>
   (fmdom st = {||} \<longrightarrow>
      logInitialActivity e None (Inl err) st =
        (st, [GetDocs (probeQuery e), SetDoc (docPath e ''system-init'') initialActivity,
              ConsoleError ''Error logging initial activity:''])) \<and>
   (db e \<noteq> None \<and> falsy_str (userId s) = False \<and> trim (logMessage s) \<noteq> [] \<longrightarrow>
      logUserActivity e newId (Inl err) s st =
        (s\<lparr>logMessage := ''Error logging activity.''\<rparr>, st,
         [SetDoc (docPath e newId) (activityRecord s), ConsoleError ''Error logging user activity:'']))"
proof -
  have a: "onAuthStateChanged_cb e None (Some err) docSnap s =
     (s\<lparr>userId := Some ''anonymous'', isAuthReady := True, loading := False\<rparr>,
      [signInCall e, ConsoleError ''Authentication failed:''])"
    by (simp add: onAuthStateChanged_cb_def authFailed_def)
  have b: "checkAdminStatus e u (Inl err) s =
        (s\<lparr>isAdmin := False\<rparr>,
         [GetDoc (ADMINS_DOC_PATH e), ConsoleError ''Error checking admin status:''])"
    if "db e \<noteq> None \<and> u \<noteq> []"
    using that by (auto simp: checkAdminStatus_def adminCheckFailed_def)
  have c: "logInitialActivity e (Some err) wr st =
     (st, [GetDocs (probeQuery e), ConsoleError ''Error logging initial activity:''])"
    by (simp add: logInitialActivity_unfold seedFailed_def)
  have d: "logInitialActivity e None (Inl err) st =
        (st, [GetDocs (probeQuery e), SetDoc (docPath e ''system-init'') initialActivity,
              ConsoleError ''Error logging initial activity:''])"
    if "fmdom st = {||}"
    using that by (simp add: logInitialActivity_unfold seedFailed_def)
  have f: "logUserActivity e newId (Inl err) s st =
        (s\<lparr>logMessage := ''Error logging activity.''\<rparr>, st,
         [SetDoc (docPath e newId) (activityRecord s), ConsoleError ''Error logging user activity:''])"
    if "db e \<noteq> None \<and> falsy_str (userId s) = False \<and> trim (logMessage s) \<noteq> []"
    using that by (auto simp: logUserActivity_def activityFailed_def)
  from a b c d f show ?thesis by blast
qed

theorem failures_caught_and_logged_witness:
  "checkAdminStatus demoEnv ''u1'' (Inl FirebaseError) (initialState\<lparr>isAdmin := True\<rparr>) =
     (initialState\<lparr>isAdmin := False\<rparr>,
      [GetDoc (ADMINS_DOC_PATH demoEnv), ConsoleError ''Error checking admin status:'']) \<and>
   logInitialActivity demoEnv None (Inl FirebaseError) fmempty =
     (fmempty, [GetDocs (probeQuery demoEnv), SetDoc (docPath demoEnv ''system-init'') initialActivity,
                ConsoleError ''Error logging initial activity:'']) \<and>
   logUserActivity demoEnv ''id1'' (Inl FirebaseError)
       (initialState\<lparr>userId := Some ''u1'', logMessage := ''hello''\<rparr>) fmempty =
     (initialState\<lparr>userId := Some ''u1'', logMessage := ''Error logging activity.''\<rparr>, fmempty,
      [SetDoc (docPath demoEnv ''id1'')
         (activityRecord (initialState\<lparr>userId := Some ''u1'', logMessage := ''hello''\<rparr>)),
       ConsoleError ''Error logging user activity:''])"
proof -
  let ?s = "initialState\<lparr>userId := Some ''u1'', logMessage := ''hello''\<rparr>"
  have t: "trim ''hello'' \<noteq> []"
    by (simp add: trim_def is_js_space_def)
  have g: "db demoEnv \<noteq> None \<and> falsy_str (userId ?s) = False \<and> trim (logMessage ?s) \<noteq> []"
    using db_demoEnv t by simp
  have h: "db demoEnv \<noteq> None \<and> ''u1'' \<noteq> []"
    using db_demoEnv by simp
  have e: "fmdom (fmempty :: store) = {||}" by simp
  from failures_caught_and_logged [of demoEnv FirebaseError "Inr None" "initialState\<lparr>isAdmin := True\<rparr>"
      "''u1''" "Inr 0" fmempty "''id1''"] h e
  have one: "checkAdminStatus demoEnv ''u1'' (Inl FirebaseError) (initialState\<lparr>isAdmin := True\<rparr>) =
     (initialState\<lparr>isAdmin := False\<rparr>,
      [GetDoc (ADMINS_DOC_PATH demoEnv), ConsoleError ''Error checking admin status:''])"
    and two: "logInitialActivity demoEnv None (Inl FirebaseError) fmempty =
     (fmempty, [GetDocs (probeQuery demoEnv), SetDoc (docPath demoEnv ''system-init'') initialActivity,
                ConsoleError ''Error logging initial activity:''])"
    by simp_all
  from failures_caught_and_logged [of demoEnv FirebaseError "Inr None" ?s "''u1''" "Inr 0" fmempty "''id1''"] g
  have "logUserActivity demoEnv ''id1'' (Inl FirebaseError) ?s fmempty =
     (?s\<lparr>logMessage := ''Error logging activity.''\<rparr>, fmempty,
      [SetDoc (docPath demoEnv ''id1'') (activityRecord ?s), ConsoleError ''Error logging user activity:''])"
    by blast
  with one two show ?thesis by simp
qed

section \<open>The live feed\<close>

lemma mapViews_wellTimed:
  "allWellTimed docs \<Longrightarrow> mapViews e docs = Inr (map (viewOf e) docs)"
proof (induction docs)
  case Nil
  then show ?case by simp
next
  case (Cons d ds)
  from Cons.prems have "wellTimed (snd d)" and "allWellTimed ds"
    by simp_all
  then have "activityView e d = Inr (viewOf e d)" and "mapViews e ds = Inr (map (viewOf e) ds)"
    using Cons.IH
    by (auto simp: activityView_def viewOf_def formatTimestamp_def timeText_def wellTimed_def
        split: option.splits fsvalue.splits)
  then show ?case by simp
qed

text \<open>
  Claim C5 says that for every delivered snapshot the rendered list is the records of
  that snapshot. A snapshot can hold a record whose timestamp field is not a stored
  time (the records are free-form and the query orders by whatever the field holds);
  the callback then throws while it formats the time, and the list stays what it was.
\<close>

theorem snapshot_with_text_timestamp_not_rendered:
  "onSnapshot_next demoEnv
      [(''a1'', fmap_of_list [(''content'', VStr ''hi''), (''timestamp'', VStr ''yesterday'')])]
      initialState = (initialState, [Uncaught TypeError]) \<and>
   globalActivities initialState = []"
  by (simp add: onSnapshot_next_def activityView_def formatTimestamp_def initialState_def)

text \<open>
  Claim C5, amended. The feed effect subscribes with the query on the shared activity
  collection, ordered by timestamp descending and limited to 100. For every delivered
  snapshot in which each record's timestamp is a stored time, null or absent, the list
  becomes one entry per record of the snapshot, in the snapshot's order; an entry has
  every field of its record other than timestamp unchanged, the record's id under
  \<open>id\<close> unless the record has a field of that name, and under timestamp the formatted
  local time of a stored time and \<^verbatim>\<open>'N/A'\<close> otherwise.
\<close>

theorem snapshot_rendered_in_order:
  "(db e \<noteq> None \<and> isAuthReady s \<longrightarrow>
      [q \<leftarrow> snd (feedEffect e probe wr s st). q = OnSnapshot (feedQuery e)] = [OnSnapshot (feedQuery e)] \<and>
      q_collection (feedQuery e) = ACTIVITIES_COLLECTION_PATH e \<and>
      q_orderBy (feedQuery e) = Some (''timestamp'', Desc) \<and>
      q_limit (feedQuery e) = Some 100) \<and>
   (allWellTimed docs \<longrightarrow>
      onSnapshot_next e docs s = (s\<lparr>globalActivities := map (viewOf e) docs\<rparr>, []) \<and>
      length (map (viewOf e) docs) = length docs \<and>
      (\<forall>i k. i < length docs \<longrightarrow> k \<noteq> ''timestamp'' \<longrightarrow>
         fmlookup (map (viewOf e) docs ! i) k =
           (if k = ''id'' \<and> ''id'' |\<notin>| fmdom (snd (docs ! i))
            then Some (VStr (fst (docs ! i)))
            else fmlookup (snd (docs ! i)) k)) \<and>
      (\<forall>i. i < length docs \<longrightarrow>
         fmlookup (map (viewOf e) docs ! i) ''timestamp'' =
           Some (VStr (timeText e (fmlookup (snd (docs ! i)) ''timestamp'')))))"
proof -
  have sub: "[q \<leftarrow> snd (feedEffect e probe wr s st). q = OnSnapshot (feedQuery e)] =
               [OnSnapshot (feedQuery e)]"
    if "db e \<noteq> None \<and> isAuthReady s"
    using that
    by (auto simp: feedEffect_unfold logInitialActivity_unfold seedFailed_def case_prod_beta
        split: option.splits sum.splits)
  have q: "q_collection (feedQuery e) = ACTIVITIES_COLLECTION_PATH e \<and>
           q_orderBy (feedQuery e) = Some (''timestamp'', Desc) \<and>
           q_limit (feedQuery e) = Some 100"
    by (simp add: feedQuery_def)
  have next_ok: "onSnapshot_next e docs s = (s\<lparr>globalActivities := map (viewOf e) docs\<rparr>, [])"
    if "allWellTimed docs"
    using mapViews_wellTimed [OF that] by (simp add: onSnapshot_next_def)
  have fields: "fmlookup (viewOf e d) k =
           (if k = ''id'' \<and> ''id'' |\<notin>| fmdom (snd d) then Some (VStr (fst d)) else fmlookup (snd d) k)"
    if "k \<noteq> ''timestamp''" for d k
    using that by (auto simp: viewOf_def dest: fmdom_notD)
  have time: "fmlookup (viewOf e d) ''timestamp'' =
                Some (VStr (timeText e (fmlookup (snd d) ''timestamp'')))" for d
    by (simp add: viewOf_def)
  show ?thesis
    using sub q next_ok fields time by simp
qed

theorem snapshot_rendered_in_order_witness:
  "allWellTimed
     [(''a2'', fmap_of_list [(''content'', VStr ''new''), (''timestamp'', VTimestamp 8)]),
      (''a1'', fmap_of_list [(''content'', VStr ''old''), (''timestamp'', VNull)])] \<and>
   onSnapshot_next demoEnv
     [(''a2'', fmap_of_list [(''content'', VStr ''new''), (''timestamp'', VTimestamp 8)]),
      (''a1'', fmap_of_list [(''content'', VStr ''old''), (''timestamp'', VNull)])]
     initialState =
     (initialState\<lparr>globalActivities :=
        [fmap_of_list [(''timestamp'', VStr ''10:15:00 AM''), (''content'', VStr ''new''),
                       (''id'', VStr ''a2'')],
         fmap_of_list [(''timestamp'', VStr ''N/A''), (''content'', VStr ''old''),
                       (''id'', VStr ''a1'')]]\<rparr>, [])"
proof -
  let ?d2 = "(''a2'', fmap_of_list [(''content'', VStr ''new''), (''timestamp'', VTimestamp 8)])"
  let ?d1 = "(''a1'', fmap_of_list [(''content'', VStr ''old''), (''timestamp'', VNull)])"
  have wt: "allWellTimed [?d2, ?d1]"
    by (simp add: wellTimed_def)
  have v2: "viewOf demoEnv ?d2 =
      fmap_of_list [(''timestamp'', VStr ''10:15:00 AM''), (''content'', VStr ''new''), (''id'', VStr ''a2'')]"
    by (rule fmap_ext) (simp add: viewOf_def timeText_def demoEnv_simps)
  have v1: "viewOf demoEnv ?d1 =
      fmap_of_list [(''timestamp'', VStr ''N/A''), (''content'', VStr ''old''), (''id'', VStr ''a1'')]"
    by (rule fmap_ext) (simp add: viewOf_def timeText_def demoEnv_simps)
  from snapshot_rendered_in_order [of demoEnv initialState None "Inr 0" fmempty "[?d2, ?d1]"] wt
  have "onSnapshot_next demoEnv [?d2, ?d1] initialState =
          (initialState\<lparr>globalActivities := map (viewOf demoEnv) [?d2, ?d1]\<rparr>, [])"
    by blast
  with wt show ?thesis
    by (simp only: list.map v2 v1 simp_thms)
qed

section \<open>The admin allow-list\<close>

text \<open>
  What \<^verbatim>\<open>checkAdminStatus\<close> does when the check runs (a database handle and a
  non-empty user id): with an array under \<open>uids\<close>, or with no or a falsy \<open>uids\<close>
  field, isAdmin becomes true exactly when the array holds the user id; with no
  document, or a failed read, it becomes false; and the role label follows isAdmin.
\<close>

lemma checkAdminStatus_array:
  assumes "db e \<noteq> None" and "u \<noteq> []"
    and "or_empty_array (fmlookup data ''uids'') = VArr xs"
  shows "checkAdminStatus e u (Inr (Some data)) s =
           (s\<lparr>isAdmin := (VStr u \<in> set xs)\<rparr>,
            [GetDoc (ADMINS_DOC_PATH e),
             ConsoleLog (''User '' @ u @ '' is admin: '' @
               (if VStr u \<in> set xs then ''true'' else ''false''))])"
  using assms by (auto simp: checkAdminStatus_def)

lemma checkAdminStatus_no_uids:
  assumes "db e \<noteq> None" and "u \<noteq> []" and "fmlookup data ''uids'' = None"
  shows "isAdmin (fst (checkAdminStatus e u (Inr (Some data)) s)) = False"
  using assms by (auto simp: checkAdminStatus_def or_empty_array_def)

lemma checkAdminStatus_no_document:
  assumes "db e \<noteq> None" and "u \<noteq> []"
  shows "isAdmin (fst (checkAdminStatus e u (Inr None) s)) = False"
  using assms by (auto simp: checkAdminStatus_def)

lemma checkAdminStatus_read_fails:
  assumes "db e \<noteq> None" and "u \<noteq> []"
  shows "isAdmin (fst (checkAdminStatus e u (Inl err) s)) = False"
  using assms by (auto simp: checkAdminStatus_def adminCheckFailed_def)

lemma checkAdminStatus_map:
  assumes "db e \<noteq> None" and "u \<noteq> []" and "fmlookup data ''uids'' = Some (VMap m)"
  shows "checkAdminStatus e u (Inr (Some data)) s =
           (s\<lparr>isAdmin := False\<rparr>,
            [GetDoc (ADMINS_DOC_PATH e), ConsoleError ''Error checking admin status:''])"
  using assms by (auto simp: checkAdminStatus_def or_empty_array_def adminCheckFailed_def)

lemma roleLabel_Administrator:
  "isAdmin s \<Longrightarrow> roleLabel s = ''Administrator''"
  by (simp add: roleLabel_def)

lemma checkAdminStatus_array_role:
  assumes "db e \<noteq> None" and "u \<noteq> []"
    and "fmlookup data ''uids'' = Some (VArr xs)" and "VStr u \<in> set xs"
  shows "roleLabel (fst (checkAdminStatus e u (Inr (Some data)) s)) = ''Administrator''"
  using assms checkAdminStatus_array [of e u data xs s]
  by (simp add: or_empty_array_def roleLabel_def)

text \<open>
  Claim C1 says that isAdmin becomes true if and only if the admins document exists
  and its \<open>uids\<close> field contains the user id. The comment in the source says the
  field holds an array or a map of admin ids. With a map that has the user id as a
  key, the membership test throws (a map has no \<^verbatim>\<open>includes\<close>), the \<^verbatim>\<open>catch\<close> block
  runs, and isAdmin becomes false.
\<close>

theorem checkAdminStatus_map_uids_denies_admin:
  "''u1'' |\<in>| fmdom (fmap_of_list [(''u1'', VBool True)]) \<and>
   checkAdminStatus demoEnv ''u1''
      (Inr (Some (fmap_of_list [(''uids'', VMap (fmap_of_list [(''u1'', VBool True)]))])))
      initialState
    = (initialState\<lparr>isAdmin := False\<rparr>,
       [GetDoc ''artifacts/default-app-id/public/settings/admins'',
        ConsoleError ''Error checking admin status:''])"
  by (simp add: checkAdminStatus_def db_None_iff demoEnv_simps or_empty_array_def
      adminCheckFailed_def ADMINS_DOC_PATH_def)

end
